theory Spec2Isabelle
  imports Main "HOL-Library.Sublist"
begin

section \<open>Python strings\<close>

text \<open>
  A Python \<^verbatim>\<open>str\<close> is a sequence of Unicode code points, so it is modelled as a list of
  naturals, one per code point. The literals of \<^verbatim>\<open>robust_generator.py\<close> that end up
  in strings handled here are ASCII; \<open>str_of\<close> reads them from an Isabelle literal.
\<close>

type_synonym pystr = "nat list"

definition str_of :: "string \<Rightarrow> pystr" where
  "str_of s = map of_char s"

text \<open>
  \<^verbatim>\<open>str.isspace\<close> for one code point: the characters CPython's
  \<^verbatim>\<open>_PyUnicode_IsWhitespace\<close> accepts (general category Zs, or bidirectional class WS, B
  or S).
\<close>

definition isspace :: "nat \<Rightarrow> bool" where
  "isspace c \<longleftrightarrow>
     (9 \<le> c \<and> c \<le> 13) \<or> (28 \<le> c \<and> c \<le> 32) \<or> c = 133 \<or> c = 160 \<or> c = 5760 \<or>
     (8192 \<le> c \<and> c \<le> 8202) \<or> c = 8232 \<or> c = 8233 \<or> c = 8239 \<or> c = 8287 \<or> c = 12288"

definition lstrip :: "pystr \<Rightarrow> pystr" where
  "lstrip s = dropWhile isspace s"

definition rstrip :: "pystr \<Rightarrow> pystr" where
  "rstrip s = rev (dropWhile isspace (rev s))"

text \<open>\<^verbatim>\<open>s.strip()\<close>: leading and trailing whitespace removed.\<close>

definition strip :: "pystr \<Rightarrow> pystr" where
  "strip s = rstrip (lstrip s)"

text \<open>\<^verbatim>\<open>s.startswith(p)\<close> and \<^verbatim>\<open>s.endswith(p)\<close>.\<close>

definition startswith :: "pystr \<Rightarrow> pystr \<Rightarrow> bool" where
  "startswith s p \<longleftrightarrow> take (length p) s = p"

definition endswith :: "pystr \<Rightarrow> pystr \<Rightarrow> bool" where
  "endswith s p \<longleftrightarrow> length p \<le> length s \<and> drop (length s - length p) s = p"

text \<open>\<^verbatim>\<open>sep.join(parts)\<close>.\<close>

fun join :: "pystr \<Rightarrow> pystr list \<Rightarrow> pystr" where
  "join sep [] = []"
| "join sep [p] = p"
| "join sep (p # q # ps) = p @ sep @ join sep (q # ps)"

section \<open>Response sanitizer\<close>

definition think_open :: pystr where
  "think_open = str_of ''<think>''"

definition think_close :: pystr where
  "think_close = str_of ''</think>''"

text \<open>
  The lazy \<^verbatim>\<open>.*?\<close> under \<^verbatim>\<open>re.DOTALL\<close> stops at the first \<^verbatim>\<open></think>\<close> that follows
  the opening tag: \<open>find_close s\<close> is what remains of \<open>s\<close> after that first closing
  tag, or \<open>None\<close> when \<open>s\<close> has none.
\<close>

fun find_close :: "pystr \<Rightarrow> pystr option" where
  "find_close [] = None"
| "find_close (c # cs) =
     (if startswith (c # cs) think_close then Some (drop (length think_close) (c # cs))
      else find_close cs)"

lemma find_close_shorter: "find_close s = Some r \<Longrightarrow> length r < length s"
  by (induction s) (auto simp: think_close_def str_of_def split: if_splits)

text \<open>
  \<^verbatim>\<open>re.sub(r'<think>.*?</think>', '', s, flags=re.DOTALL)\<close>: the scan goes left to right;
  at a position where the pattern matches the match is dropped and the scan resumes
  after it, elsewhere the character is kept.
\<close>

function remove_think :: "pystr \<Rightarrow> pystr" where
  "remove_think [] = []"
| "remove_think (c # cs) =
     (if startswith (c # cs) think_open then
        (case find_close (drop (length think_open) (c # cs)) of
           Some rest \<Rightarrow> remove_think rest
         | None \<Rightarrow> c # remove_think cs)
      else c # remove_think cs)"
  by pat_completeness auto
termination
proof (relation "measure length")
  show "wf (measure length)" by simp
next
  fix c cs rest
  assume "find_close (drop (length think_open) (c # cs)) = Some rest"
  then have "length rest < length (drop (length think_open) (c # cs))"
    by (rule find_close_shorter)
  then show "(rest, c # cs) \<in> measure length" by simp
qed simp_all

definition fence_python :: pystr where
  "fence_python = str_of ''```python''"

definition fence :: pystr where
  "fence = str_of ''```''"

text \<open>Lines 152 to 155: one leading fence is dropped, the tagged one first.\<close>

definition strip_leading_fence :: "pystr \<Rightarrow> pystr" where
  "strip_leading_fence s =
     (if startswith s fence_python then drop 9 s
      else if startswith s fence then drop 3 s
      else s)"

text \<open>Lines 156 and 157: \<^verbatim>\<open>s[:-3]\<close> when \<open>s\<close> ends with a fence.\<close>

definition strip_trailing_fence :: "pystr \<Rightarrow> pystr" where
  "strip_trailing_fence s = (if endswith s fence then take (length s - 3) s else s)"

text \<open>Lines 148 to 159 of \<^verbatim>\<open>enhance_with_llm\<close>, from the response's content to the text that is compiled.\<close>

definition sanitize :: "pystr \<Rightarrow> pystr" where
  "sanitize content =
     strip (strip_trailing_fence (strip_leading_fence (remove_think (strip content))))"

section \<open>Exceptions, output and the outside world\<close>

text \<open>
  The exceptions that can reach the handlers of \<^verbatim>\<open>robust_generator.py\<close>. All are instances
  of \<^verbatim>\<open>Exception\<close> except \<open>KeyboardInterrupt\<close>, which derives from \<^verbatim>\<open>BaseException\<close>
  only and is therefore not caught by \<^verbatim>\<open>except Exception\<close>. \<open>SyntaxError\<close> stands for
  the class and its subclasses, \<open>OSError\<close> likewise (permission denied, disk full,
  file not found, broken pipe); \<open>UnicodeEncodeError\<close> is what a text stream raises for
  a character its encoding does not have; \<open>ConnectError\<close> and \<open>ResponseError\<close> are
  the faults of the model client (backend unreachable, backend answered with an error).
\<close>

datatype exc =
    SyntaxError
  | ValueError
  | OSError
  | UnicodeEncodeError
  | ConnectError
  | ResponseError
  | CalledProcessError
  | KeyboardInterrupt

fun is_Exception :: "exc \<Rightarrow> bool" where
  "is_Exception KeyboardInterrupt = False"
| "is_Exception _ = True"

fun is_SyntaxError :: "exc \<Rightarrow> bool" where
  "is_SyntaxError SyntaxError = True"
| "is_SyntaxError _ = False"

text \<open>One constructor for each \<^verbatim>\<open>print\<close> of the program, with the values it formats.\<close>

datatype line =
    Initializing pystr
  | GeneratorReady
  | EnhancingWithLLM
  | EnhancedCodeValid
  | EnhancedCodeSyntaxError exc
  | UsingBaseTemplate
  | EnhancementFailed exc
  | CreatingProject pystr
  | Requirements pystr
  | CreatedMainPy
  | CreatedRequirementsTxt
  | CreatedReadme
  | TestingGeneratedCode
  | PythonSyntaxValid
  | CodeImportsSuccessfully
  | ImportTestFailed pystr
  | TestSyntaxError exc
  | TestError exc
  | ProjectCreatedAt pystr
  | ToRun
  | CdTo pystr
  | SourceVenvActivate
  | UvicornReload

text \<open>The lines that report a failure (printed with a warning or a cross sign).\<close>

fun is_warning :: "line \<Rightarrow> bool" where
  "is_warning (EnhancedCodeSyntaxError _) = True"
| "is_warning (EnhancementFailed _) = True"
| "is_warning (ImportTestFailed _) = True"
| "is_warning (TestSyntaxError _) = True"
| "is_warning (TestError _) = True"
| "is_warning _ = False"

text \<open>
  A \<^verbatim>\<open>pathlib.Path\<close> (POSIX flavour) is the list of its components. Parsing a relative
  path splits at \<^verbatim>\<open>/\<close> and drops empty and \<^verbatim>\<open>.\<close> components.
\<close>

type_synonym path = "pystr list"

fun split_on :: "nat \<Rightarrow> pystr \<Rightarrow> pystr list" where
  "split_on d [] = [[]]"
| "split_on d (c # cs) =
     (if c = d then [] # split_on d cs
      else (case split_on d cs of
              [] \<Rightarrow> [[c]]
            | p # ps \<Rightarrow> (c # p) # ps))"

definition Path :: "pystr \<Rightarrow> path" where
  "Path s = filter (\<lambda>c. c \<noteq> [] \<and> c \<noteq> str_of ''.'') (split_on 47 s)"

text \<open>\<^verbatim>\<open>str(path)\<close> of a relative path.\<close>

definition path_str :: "path \<Rightarrow> pystr" where
  "path_str p = (if p = [] then str_of ''.'' else join (str_of ''/'') p)"

text \<open>
  The state the program changes: the files it writes (venv and cache directories that the
  subprocesses of the smoke test leave behind are not tracked) and what it has printed.
\<close>

record world =
  files :: "path \<rightharpoonup> pystr"
  stdout :: "line list"

datatype cmd =
    CreateVenv path
  | PipInstall path
  | ImportMain path

record completed =
  returncode :: int
  stderr :: pystr

text \<open>
  The collaborators outside the repository, taken as parameters: what each call returns
  or raises during one run.
  \<^item> \<open>chat_ollama\<close>: the constructor \<^verbatim>\<open>ChatOllama(model=...)\<close>;
  \<^item> \<open>llm_invoke\<close>: \<^verbatim>\<open>self.llm.invoke([HumanMessage(content=prompt)])\<close>, returning the
    \<^verbatim>\<open>content\<close> (a \<^verbatim>\<open>str\<close>) of the response;
  \<^item> \<open>py_compile\<close>: the builtin \<^verbatim>\<open>compile(source, filename, 'exec')\<close>, \<open>None\<close> when it
    accepts the source;
  \<^item> \<open>os_mkdir\<close>: \<^verbatim>\<open>Path.mkdir(parents=True, exist_ok=True)\<close>;
  \<^item> \<open>os_open_w\<close>: a fault of \<^verbatim>\<open>open(p, "w")\<close>;
  \<^item> \<open>os_write\<close>: a fault of \<^verbatim>\<open>f.write(content)\<close> or of closing the file (the text
    has a character the file's encoding does not have, the disk is full), with what the
    file holds afterwards;
  \<^item> \<open>os_open_r\<close>: a fault of opening or reading a path;
  \<^item> \<open>subprocess_run\<close>: \<^verbatim>\<open>subprocess.run\<close> without \<^verbatim>\<open>check\<close>;
  \<^item> \<open>os_print\<close>: a fault of \<^verbatim>\<open>print\<close> for a line (the stream's encoding does not
    have a character of the message, the stream is closed).
\<close>

record env =
  chat_ollama :: "pystr \<Rightarrow> exc option"
  llm_invoke :: "pystr \<Rightarrow> exc + pystr"
  py_compile :: "pystr \<Rightarrow> exc option"
  os_mkdir :: "path \<Rightarrow> exc option"
  os_open_w :: "path \<Rightarrow> exc option"
  os_write :: "path \<Rightarrow> pystr \<Rightarrow> (exc \<times> pystr) option"
  os_open_r :: "path \<Rightarrow> exc option"
  subprocess_run :: "cmd \<Rightarrow> exc + completed"
  os_print :: "line \<Rightarrow> exc option"

text \<open>
  A statement runs in a world and either raises or returns a value; the world it leaves
  is kept in both cases.
\<close>

type_synonym 'a io = "world \<Rightarrow> (exc + 'a) \<times> world"

definition return_io :: "'a \<Rightarrow> 'a io" where
  "return_io a w = (Inr a, w)"

definition raise_io :: "exc \<Rightarrow> 'a io" where
  "raise_io e w = (Inl e, w)"

text \<open>Sequencing: a raise skips the rest.\<close>

definition bind_io :: "'a io \<Rightarrow> ('a \<Rightarrow> 'b io) \<Rightarrow> 'b io" where
  "bind_io m f w = (case m w of (Inl e, w') \<Rightarrow> (Inl e, w') | (Inr a, w') \<Rightarrow> f a w')"

text \<open>
  \<^verbatim>\<open>try: body except ...: handler\<close>. An exception of the body that a clause of the
  statement catches runs the handler, in the world the body left; what the handler
  raises is not caught by this statement. \<open>caught\<close> tells which exceptions the clauses
  catch, and \<open>handler\<close> is the block of the first clause that matches.
\<close>

definition try_except :: "'a io \<Rightarrow> (exc \<Rightarrow> bool) \<Rightarrow> (exc \<Rightarrow> 'a io) \<Rightarrow> 'a io" where
  "try_except body caught handler w =
     (case body w of
        (Inl e, w') \<Rightarrow> if caught e then handler e w' else (Inl e, w')
      | (Inr a, w') \<Rightarrow> (Inr a, w'))"

text \<open>\<^verbatim>\<open>print(...)\<close>: the line reaches the stream, or \<^verbatim>\<open>print\<close> raises and nothing is added.\<close>

definition print_line :: "env \<Rightarrow> line \<Rightarrow> unit io" where
  "print_line env l w =
     (case os_print env l of
        Some e \<Rightarrow> (Inl e, w)
      | None \<Rightarrow> (Inr (), w\<lparr>stdout := stdout w @ [l]\<rparr>))"

text \<open>
  \<^verbatim>\<open>with open(p, "w") as f: f.write(content)\<close>. When \<^verbatim>\<open>open\<close> raises, the file is as
  it was. Otherwise the file has been truncated; when the write then raises, the file
  holds what had reached it (nothing, for an encoding error), else exactly \<open>content\<close>.
\<close>

definition write_file :: "env \<Rightarrow> path \<Rightarrow> pystr \<Rightarrow> unit io" where
  "write_file env p content w =
     (case os_open_w env p of
        Some e \<Rightarrow> (Inl e, w)
      | None \<Rightarrow>
          (case os_write env p content of
             Some (e, left) \<Rightarrow> (Inl e, w\<lparr>files := (files w)(p \<mapsto> left)\<rparr>)
           | None \<Rightarrow> (Inr (), w\<lparr>files := (files w)(p \<mapsto> content)\<rparr>)))"

text \<open>The exception that writing \<open>content\<close> to \<open>p\<close> raises, if any.\<close>

definition write_fault :: "env \<Rightarrow> path \<Rightarrow> pystr \<Rightarrow> exc option" where
  "write_fault env p content =
     (case os_open_w env p of
        Some e \<Rightarrow> Some e
      | None \<Rightarrow> map_option fst (os_write env p content))"

text \<open>\<^verbatim>\<open>with open(p, "r") as f: code = f.read()\<close>.\<close>

definition read_file :: "env \<Rightarrow> path \<Rightarrow> pystr io" where
  "read_file env p w =
     (case os_open_r env p of
        Some e \<Rightarrow> (Inl e, w)
      | None \<Rightarrow> (case files w p of None \<Rightarrow> (Inl OSError, w) | Some c \<Rightarrow> (Inr c, w)))"

definition compile_exec :: "env \<Rightarrow> pystr \<Rightarrow> unit io" where
  "compile_exec env source w =
     (case py_compile env source of Some e \<Rightarrow> (Inl e, w) | None \<Rightarrow> (Inr (), w))"

definition run :: "env \<Rightarrow> cmd \<Rightarrow> completed io" where
  "run env c w = (case subprocess_run env c of Inl e \<Rightarrow> (Inl e, w) | Inr r \<Rightarrow> (Inr r, w))"

text \<open>\<^verbatim>\<open>project_path.mkdir(parents=True, exist_ok=True)\<close>.\<close>

definition mkdir :: "env \<Rightarrow> path \<Rightarrow> unit io" where
  "mkdir env p w = (case os_mkdir env p of Some e \<Rightarrow> (Inl e, w) | None \<Rightarrow> (Inr (), w))"

text \<open>\<^verbatim>\<open>self.llm.invoke([HumanMessage(content=prompt)]).content\<close>.\<close>

definition invoke :: "env \<Rightarrow> pystr \<Rightarrow> pystr io" where
  "invoke env prompt w =
     (case llm_invoke env prompt of Inl e \<Rightarrow> (Inl e, w) | Inr content \<Rightarrow> (Inr content, w))"

text \<open>\<^verbatim>\<open>subprocess.run(..., check=True)\<close>: a nonzero return code raises.\<close>

definition run_checked :: "env \<Rightarrow> cmd \<Rightarrow> completed io" where
  "run_checked env c =
     bind_io (run env c)
       (\<lambda>r. if returncode r \<noteq> 0 then raise_io CalledProcessError else return_io r)"

section \<open>The generator\<close>

text \<open>\<^verbatim>\<open>RobustFastAPIGenerator.__init__\<close>.\<close>

definition init :: "env \<Rightarrow> pystr \<Rightarrow> unit io" where
  "init env model_name =
     bind_io (print_line env (Initializing model_name))
       (\<lambda>_. case chat_ollama env model_name of
               Some e \<Rightarrow> raise_io e
             | None \<Rightarrow> print_line env GeneratorReady)"

definition unlines :: "pystr list \<Rightarrow> pystr" where
  "unlines ls = concat (map (\<lambda>l. l @ [10]) ls)"

definition template_lines :: "string list" where
  \<open>template_lines =
    [''from fastapi import FastAPI, HTTPException'',
     ''from pydantic import BaseModel'',
     ''from typing import List, Optional'',
     ''import uuid'',
     '''',
     ''app = FastAPI('',
     ''    title="Task Manager API",'',
     ''    description="A simple task management API",'',
     ''    version="1.0.0"'',
     '')'',
     '''',
     ''# Data Models'',
     ''class TaskBase(BaseModel):'',
     ''    title: str'',
     ''    description: Optional[str] = None'',
     '''',
     ''class TaskCreate(TaskBase):'',
     ''    pass'',
     '''',
     ''class TaskUpdate(TaskBase):'',
     ''    completed: Optional[bool] = None'',
     '''',
     ''class Task(TaskBase):'',
     ''    id: str'',
     ''    completed: bool = False'',
     '''',
     ''# In-memory storage (replace with database in production)'',
     ''tasks_db = {}'',
     '''',
     ''@app.get("/")'',
     ''async def root():'',
     ''    return {"message": "Welcome to Task Manager API", "docs": "/docs"}'',
     '''',
     ''@app.get("/tasks", response_model=List[Task])'',
     ''async def get_all_tasks():'',
     ''    """Get all tasks"""'',
     ''    return list(tasks_db.values())'',
     '''',
     ''@app.post("/tasks", response_model=Task)'',
     ''async def create_task(task: TaskCreate):'',
     ''    """Create a new task"""'',
     ''    task_id = str(uuid.uuid4())'',
     ''    new_task = Task('',
     ''        id=task_id,'',
     ''        title=task.title,'',
     ''        description=task.description,'',
     ''        completed=False'',
     ''    )'',
     ''    tasks_db[task_id] = new_task'',
     ''    return new_task'',
     '''',
     ''@app.get("/tasks/{task_id}", response_model=Task)'',
     ''async def get_task(task_id: str):'',
     ''    """Get a specific task by ID"""'',
     ''    if task_id not in tasks_db:'',
     ''        raise HTTPException(status_code=404, detail="Task not found")'',
     ''    return tasks_db[task_id]'',
     '''',
     ''@app.put("/tasks/{task_id}", response_model=Task)'',
     ''async def update_task(task_id: str, task_update: TaskUpdate):'',
     ''    """Update a specific task"""'',
     ''    if task_id not in tasks_db:'',
     ''        raise HTTPException(status_code=404, detail="Task not found")'',
     '''',
     ''    stored_task = tasks_db[task_id]'',
     ''    stored_task.title = task_update.title'',
     ''    if task_update.description is not None:'',
     ''        stored_task.description = task_update.description'',
     ''    if task_update.completed is not None:'',
     ''        stored_task.completed = task_update.completed'',
     '''',
     ''    return stored_task'',
     '''',
     ''@app.delete("/tasks/{task_id}")'',
     ''async def delete_task(task_id: str):'',
     ''    """Delete a specific task"""'',
     ''    if task_id not in tasks_db:'',
     ''        raise HTTPException(status_code=404, detail="Task not found")'',
     '''',
     ''    del tasks_db[task_id]'',
     ''    return {"message": "Task deleted successfully"}'',
     '''',
     ''@app.get("/tasks/status/completed", response_model=List[Task])'',
     ''async def get_completed_tasks():'',
     ''    """Get all completed tasks"""'',
     ''    return [task for task in tasks_db.values() if task.completed]'',
     '''',
     ''@app.get("/tasks/status/pending", response_model=List[Task])'',
     ''async def get_pending_tasks():'',
     ''    """Get all pending tasks"""'',
     ''    return [task for task in tasks_db.values() if not task.completed]'',
     '''',
     ''if __name__ == "__main__":'',
     ''    import uvicorn'',
     ''    uvicorn.run(app, host="0.0.0.0", port=8000)'']\<close>

text \<open>\<^verbatim>\<open>create_working_fastapi_app\<close>: the template, whatever the requirements.\<close>

definition template :: pystr where
  "template = unlines (map str_of template_lines)"

definition create_working_fastapi_app :: "pystr \<Rightarrow> pystr" where
  "create_working_fastapi_app requirements = template"

text \<open>The prompt of \<^verbatim>\<open>enhance_with_llm\<close> (lines 128 to 141).\<close>

definition enhance_prompt :: "pystr \<Rightarrow> pystr \<Rightarrow> pystr" where
  "enhance_prompt base_code requirements =
     str_of ''Take this working FastAPI code and enhance it based on these requirements: ''
     @ requirements
     @ str_of ''\<newline>\<newline>EXISTING CODE:\<newline>''
     @ base_code
     @ str_of ''\<newline>\<newline>INSTRUCTIONS:\<newline>''
     @ unlines (map str_of
         [''- Keep all existing functionality working'',
          ''- Add any additional endpoints or features mentioned in requirements'',
          ''- Maintain the same code structure and style'',
          ''- Return ONLY the complete Python code'',
          ''- Do not add explanations or markdown'',
          ''- Ensure all syntax is valid Python''])
     @ str_of ''\<newline>ENHANCED CODE:''"

text \<open>The body of the inner \<^verbatim>\<open>try\<close> (lines 163 to 165).\<close>

definition validate :: "env \<Rightarrow> pystr \<Rightarrow> pystr io" where
  "validate env enhanced_code =
     bind_io (compile_exec env enhanced_code)
       (\<lambda>_. bind_io (print_line env EnhancedCodeValid)
       (\<lambda>_. return_io enhanced_code))"

text \<open>
  The body of the outer \<^verbatim>\<open>try\<close> (lines 144 to 169). The inner statement has the one
  clause \<^verbatim>\<open>except SyntaxError\<close> (lines 166 to 169); it stands inside the outer
  \<^verbatim>\<open>try\<close>, so what its handler raises is raised there.
\<close>

definition enhance_try :: "env \<Rightarrow> pystr \<Rightarrow> pystr \<Rightarrow> pystr io" where
  "enhance_try env base_code requirements =
     bind_io (print_line env EnhancingWithLLM)
       (\<lambda>_. bind_io (invoke env (enhance_prompt base_code requirements))
       (\<lambda>content.
          (let enhanced_code = sanitize content in
           try_except (validate env enhanced_code) is_SyntaxError
             (\<lambda>e. bind_io (print_line env (EnhancedCodeSyntaxError e))
               (\<lambda>_. bind_io (print_line env UsingBaseTemplate)
               (\<lambda>_. return_io base_code))))))"

text \<open>
  \<^verbatim>\<open>enhance_with_llm\<close>: the outer statement has the one clause \<^verbatim>\<open>except Exception\<close>
  (lines 171 to 174); the two prints of its handler are under no handler.
\<close>

definition enhance_with_llm :: "env \<Rightarrow> pystr \<Rightarrow> pystr \<Rightarrow> pystr io" where
  "enhance_with_llm env base_code requirements =
     try_except (enhance_try env base_code requirements) is_Exception
       (\<lambda>e. bind_io (print_line env (EnhancementFailed e))
         (\<lambda>_. bind_io (print_line env UsingBaseTemplate)
         (\<lambda>_. return_io base_code)))"

text \<open>The body of the \<^verbatim>\<open>try\<close> of \<^verbatim>\<open>test_project\<close> (lines 261 to 288).\<close>

definition test_try :: "env \<Rightarrow> path \<Rightarrow> unit io" where
  "test_try env project_path =
     bind_io (read_file env (project_path @ [str_of ''main.py'']))
       (\<lambda>code. bind_io (compile_exec env code)
       (\<lambda>_. bind_io (print_line env PythonSyntaxValid)
       (\<lambda>_. bind_io (run_checked env (CreateVenv project_path))
       (\<lambda>_. bind_io (run_checked env (PipInstall project_path))
       (\<lambda>_. bind_io (run env (ImportMain project_path))
       (\<lambda>result. if returncode result = 0 then print_line env CodeImportsSuccessfully
                  else print_line env (ImportTestFailed (stderr result))))))))"

text \<open>
  \<^verbatim>\<open>test_project\<close>: the first print (line 258) is before the \<^verbatim>\<open>try\<close>. The clauses
  are \<^verbatim>\<open>except SyntaxError\<close>, then \<^verbatim>\<open>except Exception\<close> (lines 290 to 293); the print
  of each handler is under no handler.
\<close>

definition test_project :: "env \<Rightarrow> path \<Rightarrow> unit io" where
  "test_project env project_path =
     bind_io (print_line env TestingGeneratedCode)
       (\<lambda>_. try_except (test_try env project_path)
              (\<lambda>e. is_SyntaxError e \<or> is_Exception e)
              (\<lambda>e. if is_SyntaxError e then print_line env (TestSyntaxError e)
                   else print_line env (TestError e)))"

text \<open>The manifest (lines 197 to 201) and the README (lines 207 to 245).\<close>

definition requirements_txt :: pystr where
  "requirements_txt =
     unlines (map str_of
       [''fastapi>=0.104.0'',
        ''uvicorn>=0.24.0'',
        ''pydantic>=2.0.0'',
        ''python-multipart>=0.0.6''])"

definition readme_parts :: "pystr \<Rightarrow> pystr \<Rightarrow> pystr list" where
  "readme_parts project_name requirements =
     [str_of ''# '' @ project_name,
      [],
      requirements,
      []]
     @ map str_of
       [''## Features'',
        '''',
        ''- Task CRUD operations'',
        ''- RESTful API design'',
        ''- Automatic API documentation'',
        ''- Input validation with Pydantic'',
        ''- Error handling'',
        '''',
        ''## Setup and Run'',
        '''',
        ''```bash'',
        ''# Install dependencies'',
        ''pip install -r requirements.txt'',
        '''',
        ''# Run the server'',
        ''uvicorn main:app --reload --host 0.0.0.0 --port 8000'',
        ''```'',
        '''',
        ''## API Documentation'',
        '''',
        ''Visit: http://localhost:8000/docs'',
        '''',
        ''## Available Endpoints'',
        '''',
        ''- `GET /` - Welcome message'',
        ''- `GET /tasks` - Get all tasks'',
        ''- `POST /tasks` - Create a new task'',
        ''- `GET /tasks/{task_id}` - Get specific task'',
        ''- `PUT /tasks/{task_id}` - Update task'',
        ''- `DELETE /tasks/{task_id}` - Delete task'',
        ''- `GET /tasks/status/completed` - Get completed tasks'',
        ''- `GET /tasks/status/pending` - Get pending tasks'']"

definition readme_content :: "pystr \<Rightarrow> pystr \<Rightarrow> pystr" where
  "readme_content project_name requirements =
     join [10] (readme_parts project_name requirements)"

definition project_dir :: "pystr \<Rightarrow> path" where
  "project_dir project_name = Path (str_of ''output/'' @ project_name)"

text \<open>\<^verbatim>\<open>create_project\<close> (lines 176 to 254).\<close>

definition create_project :: "env \<Rightarrow> pystr \<Rightarrow> pystr \<Rightarrow> pystr io" where
  "create_project env requirements project_name =
     (let project_path = project_dir project_name in
      bind_io (print_line env (CreatingProject project_name))
      (\<lambda>_. bind_io (print_line env (Requirements requirements))
      (\<lambda>_. bind_io (mkdir env project_path)
      (\<lambda>_. bind_io (return_io (create_working_fastapi_app requirements))
      (\<lambda>base_code. bind_io (enhance_with_llm env base_code requirements)
      (\<lambda>final_code. bind_io (write_file env (project_path @ [str_of ''main.py'']) final_code)
      (\<lambda>_. bind_io (print_line env CreatedMainPy)
      (\<lambda>_. bind_io (write_file env (project_path @ [str_of ''requirements.txt'']) requirements_txt)
      (\<lambda>_. bind_io (print_line env CreatedRequirementsTxt)
      (\<lambda>_. bind_io (write_file env (project_path @ [str_of ''README.md''])
                       (readme_content project_name requirements))
      (\<lambda>_. bind_io (print_line env CreatedReadme)
      (\<lambda>_. bind_io (test_project env project_path)
      (\<lambda>_. return_io (path_str project_path))))))))))))))"

text \<open>\<^verbatim>\<open>main\<close> (lines 296 to 312) with its fixed requirements and project name.\<close>

definition main_requirements :: pystr where
  "main_requirements =
     str_of ''\<newline>''
     @ unlines (map str_of
         [''    Task manager API with full CRUD operations:'',
          ''    - Create, read, update, delete tasks'',
          ''    - Each task has: id, title, description, completed status'',
          ''    - Filter tasks by completion status'',
          ''    - RESTful design with proper HTTP methods''])
     @ str_of ''    ''"

definition main :: "env \<Rightarrow> unit io" where
  "main env =
     bind_io (init env (str_of ''qwen3:8b''))
     (\<lambda>_. bind_io (create_project env main_requirements (str_of ''robust_task_manager''))
     (\<lambda>project_path. bind_io (print_line env (ProjectCreatedAt project_path))
     (\<lambda>_. bind_io (print_line env ToRun)
     (\<lambda>_. bind_io (print_line env (CdTo project_path))
     (\<lambda>_. bind_io (print_line env SourceVenvActivate)
     (\<lambda>_. print_line env UvicornReload))))))"



section \<open>Concrete runs\<close>

text \<open>
  Environments for evaluating the program on concrete inputs. In
  \<open>run_env answer mkdir_fault denied\<close> the model client answers every prompt with
  \<open>answer\<close>, the builtin \<^verbatim>\<open>compile\<close> rejects the unfinished statement \<^verbatim>\<open>x = (\<close> and
  accepts the other sources used below, every directory creation has the outcome
  \<open>mkdir_fault\<close>, opening a file for writing fails exactly for the file names in
  \<open>denied\<close>, every write to an opened file succeeds, every subprocess exits with status
  0, and the output stream takes every line.
\<close>

definition run_compile :: "pystr \<Rightarrow> exc option" where
  "run_compile source = (if source = str_of ''x = ('' then Some SyntaxError else None)"

definition run_env :: "exc + pystr \<Rightarrow> exc option \<Rightarrow> pystr list \<Rightarrow> env" where
  "run_env answer mkdir_fault denied =
     \<lparr>chat_ollama = (\<lambda>_. None),
      llm_invoke = (\<lambda>_. answer),
      py_compile = run_compile,
      os_mkdir = (\<lambda>_. mkdir_fault),
      os_open_w = (\<lambda>p. if p \<noteq> [] \<and> last p \<in> set denied then Some OSError else None),
      os_write = (\<lambda>_ _. None),
      os_open_r = (\<lambda>_. None),
      subprocess_run = (\<lambda>_. Inr \<lparr>returncode = 0, stderr = []\<rparr>),
      os_print = (\<lambda>_. None)\<rparr>"

definition fresh_world :: world where
  "fresh_world = \<lparr>files = Map.empty, stdout = []\<rparr>"

text \<open>A model answer that quotes its fenced code inside a second fence.\<close>

definition nested_fences :: pystr where
  "nested_fences = str_of ''```\<newline>```python\<newline>x = 1\<newline>```\<newline>```''"

text \<open>A model answer with a reasoning block before the fenced code.\<close>

definition think_then_code :: pystr where
  "think_then_code = str_of ''<think>plan</think>```python\<newline>x = 1\<newline>```''"

text \<open>A model answer whose fenced code is an unfinished statement.\<close>

definition broken_code :: pystr where
  "broken_code = str_of ''```python\<newline>x = (\<newline>```''"


text \<open>
  A model answer that is valid Python and has a comment with the check mark U+2705
  (code point 9989).
\<close>

definition check_mark_code :: pystr where
  "check_mark_code = str_of ''# '' @ [9989] @ str_of '' done\<newline>x = 1''"

text \<open>The request of the end-to-end scenario.\<close>

definition demo_requirements :: pystr where
  "demo_requirements = str_of ''Task manager API with CRUD''"

definition demo :: pystr where
  "demo = str_of ''demo''"

text \<open>A world in which \<^verbatim>\<open>output/demo/main.py\<close> holds the unfinished statement.\<close>

definition broken_world :: world where
  "broken_world =
     \<lparr>files = [[str_of ''output'', str_of ''demo'', str_of ''main.py''] \<mapsto> str_of ''x = (''],
      stdout = []\<rparr>"

text \<open>A world in which \<^verbatim>\<open>output/demo/main.py\<close> holds a valid assignment.\<close>

definition valid_world :: world where
  "valid_world =
     \<lparr>files = [[str_of ''output'', str_of ''demo'', str_of ''main.py''] \<mapsto> str_of ''x = 1''],
      stdout = []\<rparr>"

text \<open>The model backend is unreachable; the disk is writable.\<close>

definition offline :: env where
  "offline = run_env (Inl ConnectError) None []"

text \<open>The model backend is unreachable and no directory can be created.\<close>

definition read_only_disk :: env where
  "read_only_disk = run_env (Inl ConnectError) (Some OSError) []"


text \<open>
  As \<open>offline\<close>, but one step of the smoke test exits with status 1: the creation of
  the virtual environment, the installation of the dependencies, the import check.
\<close>

definition failing_venv :: env where
  "failing_venv =
     offline
       \<lparr>subprocess_run :=
          (\<lambda>c. case c of
                 CreateVenv _ \<Rightarrow> Inr \<lparr>returncode = 1, stderr = str_of ''Error''\<rparr>
               | _ \<Rightarrow> Inr \<lparr>returncode = 0, stderr = []\<rparr>)\<rparr>"

definition failing_pip :: env where
  "failing_pip =
     offline
       \<lparr>subprocess_run :=
          (\<lambda>c. case c of
                 PipInstall _ \<Rightarrow> Inr \<lparr>returncode = 1, stderr = str_of ''ERROR: No matching distribution''\<rparr>
               | _ \<Rightarrow> Inr \<lparr>returncode = 0, stderr = []\<rparr>)\<rparr>"

definition failing_import :: env where
  "failing_import =
     offline
       \<lparr>subprocess_run :=
          (\<lambda>c. case c of
                 ImportMain _ \<Rightarrow> Inr \<lparr>returncode = 1, stderr = str_of ''ModuleNotFoundError''\<rparr>
               | _ \<Rightarrow> Inr \<lparr>returncode = 0, stderr = []\<rparr>)\<rparr>"

text \<open>
  The lines of the program whose text is ASCII: every other line starts with a
  pictograph.
\<close>

fun ascii_line :: "line \<Rightarrow> bool" where
  "ascii_line UsingBaseTemplate = True"
| "ascii_line (CdTo p) = list_all (\<lambda>c. c < 128) p"
| "ascii_line SourceVenvActivate = True"
| "ascii_line UvicornReload = True"
| "ascii_line _ = False"

text \<open>As \<open>offline\<close>, with an output stream whose encoding is ASCII.\<close>

definition ascii_stream :: env where
  "ascii_stream =
     offline\<lparr>os_print := (\<lambda>l. if ascii_line l then None else Some UnicodeEncodeError)\<rparr>"

text \<open>
  The backend answers with an error whose message holds an unpaired surrogate. The
  output stream is UTF-8: it takes every line but the one that quotes that message.
\<close>

definition garbled_fault :: env where
  "garbled_fault =
     (run_env (Inl ResponseError) None [])
       \<lparr>os_print :=
          (\<lambda>l. if l = EnhancementFailed ResponseError then Some UnicodeEncodeError else None)\<rparr>"

text \<open>
  As \<open>failing_venv\<close>, with the output going to a pipe whose reader goes away during the
  smoke test: the print that reports the failed command raises \<^verbatim>\<open>BrokenPipeError\<close>,
  an \<^verbatim>\<open>OSError\<close>.
\<close>

definition broken_pipe :: env where
  "broken_pipe =
     failing_venv
       \<lparr>os_print := (\<lambda>l. if l = TestError CalledProcessError then Some OSError else None)\<rparr>"

text \<open>
  The model answers \<open>check_mark_code\<close>; files are written in an ASCII encoding, so a
  text with a character from 128 on cannot be written and the file is left empty.
\<close>

definition ascii_files :: env where
  "ascii_files =
     (run_env (Inr check_mark_code) None [])
       \<lparr>os_write :=
          (\<lambda>_ content. if list_ex (\<lambda>c. 128 \<le> c) content then Some (UnicodeEncodeError, [])
                        else None)\<rparr>"



section \<open>The sanitizer is not idempotent in general\<close>

lemmas sanitize_eval =
  sanitize_def strip_def lstrip_def rstrip_def isspace_def str_of_def
  strip_leading_fence_def strip_trailing_fence_def startswith_def endswith_def
  fence_def fence_python_def think_open_def think_close_def

lemma lstrip_fixed: "s = [] \<or> \<not> isspace (hd s) \<Longrightarrow> lstrip s = s"
  by (cases s) (auto simp: lstrip_def)

lemma lstrip_head: "lstrip s = [] \<or> \<not> isspace (hd (lstrip s))"
  using hd_dropWhile [of isspace s] by (auto simp: lstrip_def)

lemma rstrip_is_prefix: "\<exists>zs. s = rstrip s @ zs"
proof -
  have "rev s = takeWhile isspace (rev s) @ dropWhile isspace (rev s)" by simp
  then have "s = rev (dropWhile isspace (rev s)) @ rev (takeWhile isspace (rev s))"
    by (metis rev_append rev_rev_ident)
  then show ?thesis unfolding rstrip_def by blast
qed

lemma rstrip_head: "rstrip s \<noteq> [] \<Longrightarrow> hd (rstrip s) = hd s"
  using rstrip_is_prefix [of s] by (metis hd_append2)

lemma lstrip_rstrip:
  assumes "s = [] \<or> \<not> isspace (hd s)"
  shows "lstrip (rstrip s) = rstrip s"
proof (cases "rstrip s = []")
  case True
  then show ?thesis by (simp add: lstrip_def)
next
  case False
  then have "s \<noteq> []" by (auto simp: rstrip_def)
  with assms False show ?thesis by (simp add: lstrip_fixed rstrip_head)
qed

lemma rstrip_idem: "rstrip (rstrip s) = rstrip s"
  by (simp add: rstrip_def)

lemma strip_idem: "strip (strip s) = strip s"
  unfolding strip_def using lstrip_head [of s] by (simp add: lstrip_rstrip rstrip_idem)

lemma sanitize_stripped: "strip (sanitize s) = sanitize s"
  unfolding sanitize_def by (rule strip_idem)

lemma python_fence_is_fence:
  assumes "startswith s fence_python"
  shows "startswith s fence"
proof -
  have len: "length fence = 3" "length fence_python = 9"
    by (simp_all add: fence_def fence_python_def str_of_def)
  from assms have a: "take 9 s = fence_python"
    by (simp only: startswith_def len)
  have "take 3 s = take 3 (take 9 s)" by (simp only: take_take) simp
  also have "\<dots> = take 3 fence_python" by (simp only: a)
  also have "\<dots> = fence" by (simp add: fence_python_def fence_def str_of_def)
  finally show ?thesis by (simp only: startswith_def len)
qed

text \<open>
  C3, as stated, fails. For the answer \<open>nested_fences\<close> one pass removes the outer pair
  of fences and leaves the inner fenced block; a second pass removes the inner pair too,
  so the second pass changes the output of the first.
\<close>

theorem sanitize_not_idempotent:
  "sanitize nested_fences = str_of ''```python\<newline>x = 1\<newline>```''
   \<and> sanitize (sanitize nested_fences) = str_of ''x = 1''
   \<and> sanitize (sanitize nested_fences) \<noteq> sanitize nested_fences"
  by (simp add: nested_fences_def sanitize_eval)

text \<open>
  C3, amended: sanitizing is idempotent on every input whose sanitized text contains no
  \<^verbatim>\<open><think>...</think>\<close> block and neither starts nor ends with a \<^verbatim>\<open>```\<close> fence; then
  sanitizing the sanitized text returns it unchanged.
\<close>

theorem sanitize_idempotent_when_clean:
  assumes "remove_think (sanitize s) = sanitize s"
    and "\<not> startswith (sanitize s) fence"
    and "\<not> endswith (sanitize s) fence"
  shows "sanitize (sanitize s) = sanitize s"
proof -
  let ?t = "sanitize s"
  have "sanitize ?t = strip (strip_trailing_fence (strip_leading_fence (remove_think (strip ?t))))"
    by (simp add: sanitize_def)
  also have "\<dots> = strip (strip_trailing_fence (strip_leading_fence ?t))"
    using assms(1) by (simp add: sanitize_stripped)
  also have "\<dots> = strip (strip_trailing_fence ?t)"
    using assms(2) python_fence_is_fence [of ?t] by (auto simp: strip_leading_fence_def)
  also have "\<dots> = strip ?t"
    using assms(3) by (simp add: strip_trailing_fence_def)
  finally show ?thesis by (simp add: sanitize_stripped)
qed

theorem sanitize_idempotent_when_clean_witness:
  "remove_think (sanitize think_then_code) = sanitize think_then_code
   \<and> \<not> startswith (sanitize think_then_code) fence
   \<and> \<not> endswith (sanitize think_then_code) fence
   \<and> sanitize think_then_code = str_of ''x = 1''
   \<and> sanitize (sanitize think_then_code) = sanitize think_then_code"
proof -
  have v: "sanitize think_then_code = str_of ''x = 1''"
    by (simp add: think_then_code_def sanitize_eval)
  have h1: "remove_think (sanitize think_then_code) = sanitize think_then_code"
    unfolding v by (simp add: sanitize_eval)
  have h2: "\<not> startswith (sanitize think_then_code) fence"
    unfolding v by (simp add: sanitize_eval)
  have h3: "\<not> endswith (sanitize think_then_code) fence"
    unfolding v by (simp add: sanitize_eval)
  from sanitize_idempotent_when_clean [OF h1 h2 h3] h1 h2 h3 v show ?thesis by simp
qed

section \<open>Running statements in sequence\<close>

lemmas io_defs = bind_io_def return_io_def raise_io_def print_line_def

lemma bind_io_fst: "fst (m w) = Inr a \<Longrightarrow> bind_io m f w = f a (snd (m w))"
  by (cases "m w") (simp add: bind_io_def)

lemma bind_io_raises: "fst (m w) = Inl e \<Longrightarrow> fst (bind_io m f w) = Inl e"
  by (cases "m w") (simp add: bind_io_def)


lemma try_except_returns:
  "fst (body w) = Inr a \<Longrightarrow> try_except body caught handler w = (Inr a, snd (body w))"
  by (cases "body w") (simp add: try_except_def)

lemma try_except_caught:
  "fst (body w) = Inl e \<Longrightarrow> caught e \<Longrightarrow>
     try_except body caught handler w = handler e (snd (body w))"
  by (cases "body w") (simp add: try_except_def)

lemma try_except_uncaught:
  "fst (body w) = Inl e \<Longrightarrow> \<not> caught e \<Longrightarrow>
     try_except body caught handler w = (Inl e, snd (body w))"
  by (cases "body w") (simp add: try_except_def)

lemma try_except_InrE:
  assumes "try_except body caught handler w = (Inr b, w')"
  obtains "body w = (Inr b, w')"
  | e w1 where "body w = (Inl e, w1)" and "caught e" and "handler e w1 = (Inr b, w')"
  using assms by (auto simp: try_except_def split: prod.splits sum.splits if_splits)

lemma print_line_fst: "os_print env l = None \<Longrightarrow> fst (print_line env l w) = Inr ()"
  by (simp add: print_line_def)

lemma print_line_snd:
  "os_print env l = None \<Longrightarrow> snd (print_line env l w) = w\<lparr>stdout := stdout w @ [l]\<rparr>"
  by (simp add: print_line_def)

lemma print_line_eq:
  "os_print env l = None \<Longrightarrow> print_line env l w = (Inr (), w\<lparr>stdout := stdout w @ [l]\<rparr>)"
  by (simp add: print_line_def)

lemma print_line_raises: "os_print env l = Some e \<Longrightarrow> print_line env l w = (Inl e, w)"
  by (simp add: print_line_def)


lemma write_file_fst: "write_fault env p c = None \<Longrightarrow> fst (write_file env p c w) = Inr ()"
  by (auto simp: write_file_def write_fault_def split: option.splits)

lemma write_file_raises: "write_fault env p c = Some e \<Longrightarrow> fst (write_file env p c w) = Inl e"
  by (auto simp: write_file_def write_fault_def split: option.splits)



lemma invoke_eq:
  "llm_invoke env prompt = Inl e \<Longrightarrow> invoke env prompt w = (Inl e, w)"
  "llm_invoke env prompt = Inr content \<Longrightarrow> invoke env prompt w = (Inr content, w)"
  by (simp_all add: invoke_def)

lemma compile_exec_eq:
  "py_compile env s = Some e \<Longrightarrow> compile_exec env s w = (Inl e, w)"
  "py_compile env s = None \<Longrightarrow> compile_exec env s w = (Inr (), w)"
  by (simp_all add: compile_exec_def)

lemma file_names_distinct:
  "str_of ''main.py'' \<noteq> str_of ''requirements.txt''"
  "str_of ''main.py'' \<noteq> str_of ''README.md''"
  "str_of ''requirements.txt'' \<noteq> str_of ''README.md''"
  by (simp_all add: str_of_def)




text \<open>Statements whose outcome does not depend on the world they run in.\<close>

lemma bind_io_result:
  assumes "\<And>w w'. fst (m w) = fst (m w')" and "\<And>a w w'. fst (f a w) = fst (f a w')"
  shows "fst (bind_io m f w) = fst (bind_io m f w')"
proof -
  obtain r w1 where a: "m w = (r, w1)" by (cases "m w")
  obtain r' w1' where b: "m w' = (r', w1')" by (cases "m w'")
  from assms(1) [of w w'] a b have "r' = r" by simp
  with a b assms(2) show ?thesis by (cases r) (simp_all add: bind_io_def)
qed

lemma try_except_result:
  assumes "\<And>w w'. fst (body w) = fst (body w')"
    and "\<And>e w w'. fst (handler e w) = fst (handler e w')"
  shows "fst (try_except body caught handler w) = fst (try_except body caught handler w')"
proof -
  obtain r w1 where a: "body w = (r, w1)" by (cases "body w")
  obtain r' w1' where b: "body w' = (r', w1')" by (cases "body w'")
  from assms(1) [of w w'] a b have "r' = r" by simp
  with a b assms(2) show ?thesis by (cases r) (simp_all add: try_except_def)
qed

lemma basic_result:
  "fst (return_io a w) = fst (return_io a w')"
  "fst (raise_io e w) = fst (raise_io e w')"
  "fst (print_line env l w) = fst (print_line env l w')"
  "fst (compile_exec env s w) = fst (compile_exec env s w')"
  "fst (invoke env prompt w) = fst (invoke env prompt w')"
  by (simp_all add: return_io_def raise_io_def print_line_def compile_exec_def invoke_def
      split: option.splits sum.splits)

section \<open>Where the project goes\<close>


lemma split_on_nonempty: "split_on d s \<noteq> []"
  by (induction s) (auto split: list.splits)





section \<open>Values on the concrete inputs\<close>


lemma sanitize_broken_code: "sanitize broken_code = str_of ''x = (''"
  by (simp add: broken_code_def sanitize_eval)


lemma sanitize_check_mark_code: "sanitize check_mark_code = check_mark_code"
  by (simp add: check_mark_code_def sanitize_eval)

lemma run_compile_values:
  "run_compile (str_of ''x = 1'') = None"
  "run_compile (str_of ''x = ('') = Some SyntaxError"
  "run_compile [] = None"
  "run_compile check_mark_code = None"
  by (simp_all add: run_compile_def check_mark_code_def str_of_def)


lemma run_env_writes:
  "os_mkdir (run_env a None d) p = None"
  "write_fault (run_env a m []) p c = None"
  "os_print (run_env a m d) l = None"
  by (simp_all add: run_env_def write_fault_def)

lemma project_dir_demo: "project_dir demo = [str_of ''output'', str_of ''demo'']"
  by (simp add: project_dir_def Path_def demo_def str_of_def)



section \<open>Enhancement: fallback and delivery\<close>


text \<open>What \<^verbatim>\<open>enhance_with_llm\<close> returns or raises does not depend on the world it runs in.\<close>

lemma enhance_with_llm_result:
  "fst (enhance_with_llm env b r w) = fst (enhance_with_llm env b r w')"
  unfolding enhance_with_llm_def enhance_try_def validate_def Let_def
  by (intro try_except_result bind_io_result basic_result)


lemma bind_io_Inl: "fst (m w) = Inl e \<Longrightarrow> bind_io m f w = (Inl e, snd (m w))"
  by (cases "m w") (simp add: bind_io_def)

lemmas run_simps =
  bind_io_fst bind_io_Inl try_except_returns try_except_caught try_except_uncaught
  print_line_fst print_line_snd print_line_eq print_line_raises invoke_eq compile_exec_eq
  return_io_def raise_io_def

lemmas enhance_defs = enhance_with_llm_def enhance_try_def validate_def Let_def


lemma offline_enhance:
  "fst (enhance_with_llm (run_env (Inl ConnectError) m d) (create_working_fastapi_app r) r w)
     = Inr template"
proof -
  have "llm_invoke (run_env (Inl ConnectError) m d)
          (enhance_prompt (create_working_fastapi_app r) r) = Inl ConnectError"
    by (simp add: run_env_def)
  then show ?thesis
    by (simp add: enhance_defs run_simps run_env_writes create_working_fastapi_app_def)
qed


text \<open>
  C1, as stated, fails. The backend answers with an error whose message cannot be
  encoded for the output stream. The outer handler catches the error, and its own first
  print (line 172), which quotes the message, raises \<^verbatim>\<open>UnicodeEncodeError\<close>; no handler
  is around it, so \<^verbatim>\<open>enhance_with_llm\<close> raises that exception to its caller.
\<close>

theorem enhance_with_llm_raises:
  "llm_invoke garbled_fault (enhance_prompt template demo_requirements) = Inl ResponseError
   \<and> is_Exception ResponseError
   \<and> fst (enhance_with_llm garbled_fault template demo_requirements fresh_world)
       = Inl UnicodeEncodeError"
proof -
  have a: "llm_invoke garbled_fault (enhance_prompt template demo_requirements)
             = Inl ResponseError"
    and b: "os_print garbled_fault EnhancingWithLLM = None"
    and c: "os_print garbled_fault (EnhancementFailed ResponseError) = Some UnicodeEncodeError"
    by (simp_all add: garbled_fault_def run_env_def)
  then show ?thesis by (simp add: enhance_defs run_simps)
qed

text \<open>
  C1, amended: when line 144 has been printed and the model client raises an exception
  (an instance of \<^verbatim>\<open>Exception\<close>, as the connectivity and service faults are), or
  compiling the sanitized answer raises one (a syntax error in particular), and the
  output stream takes the two lines that the handler of that exception prints (its
  report and the fallback notice), \<^verbatim>\<open>enhance_with_llm\<close> returns normally and its value
  is the base template it was given, unchanged.
\<close>

theorem enhance_with_llm_falls_back:
  assumes p1: "os_print env EnhancingWithLLM = None"
    and p2: "os_print env UsingBaseTemplate = None"
    and f: "(\<exists>e. llm_invoke env (enhance_prompt base_code requirements) = Inl e
               \<and> is_Exception e \<and> os_print env (EnhancementFailed e) = None)
         \<or> (\<exists>content e. llm_invoke env (enhance_prompt base_code requirements) = Inr content
               \<and> py_compile env (sanitize content) = Some e \<and> is_Exception e
               \<and> os_print env (if is_SyntaxError e then EnhancedCodeSyntaxError e
                                else EnhancementFailed e) = None)"
  shows "fst (enhance_with_llm env base_code requirements w) = Inr base_code"
  using f
proof (elim disjE exE conjE)
  fix e
  assume "llm_invoke env (enhance_prompt base_code requirements) = Inl e"
    and "is_Exception e" and "os_print env (EnhancementFailed e) = None"
  then show ?thesis by (simp add: enhance_defs run_simps p1 p2)
next
  fix content e
  assume "llm_invoke env (enhance_prompt base_code requirements) = Inr content"
    and "py_compile env (sanitize content) = Some e" and "is_Exception e"
    and "os_print env (if is_SyntaxError e then EnhancedCodeSyntaxError e
                       else EnhancementFailed e) = None"
  then show ?thesis
    by (cases "is_SyntaxError e") (simp_all add: enhance_defs run_simps p1 p2)
qed

text \<open>
  The amended C1 on two runs: the backend is unreachable; the backend answers with an
  unfinished statement, which the compiler rejects. Both return the template.
\<close>

theorem enhance_with_llm_falls_back_witness:
  "llm_invoke offline (enhance_prompt template demo_requirements) = Inl ConnectError
   \<and> fst (enhance_with_llm offline template demo_requirements fresh_world) = Inr template
   \<and> llm_invoke (run_env (Inr broken_code) None []) (enhance_prompt template demo_requirements)
       = Inr broken_code
   \<and> py_compile (run_env (Inr broken_code) None []) (sanitize broken_code) = Some SyntaxError
   \<and> fst (enhance_with_llm (run_env (Inr broken_code) None []) template demo_requirements
            fresh_world)
       = Inr template"
proof -
  have a0: "llm_invoke offline (enhance_prompt template demo_requirements) = Inl ConnectError"
    by (simp add: offline_def run_env_def)
  then have a:
    "(\<exists>e. llm_invoke offline (enhance_prompt template demo_requirements) = Inl e
          \<and> is_Exception e \<and> os_print offline (EnhancementFailed e) = None)
     \<or> (\<exists>content e. llm_invoke offline (enhance_prompt template demo_requirements) = Inr content
          \<and> py_compile offline (sanitize content) = Some e \<and> is_Exception e
          \<and> os_print offline (if is_SyntaxError e then EnhancedCodeSyntaxError e
                               else EnhancementFailed e) = None)"
    by (simp add: offline_def run_env_writes)
  have b0: "llm_invoke (run_env (Inr broken_code) None [])
              (enhance_prompt template demo_requirements) = Inr broken_code"
    by (simp add: run_env_def)
  have c: "py_compile (run_env (Inr broken_code) None []) (sanitize broken_code)
             = Some SyntaxError"
    by (simp add: run_env_def sanitize_broken_code run_compile_values)
  from b0 c have b:
    "(\<exists>e. llm_invoke (run_env (Inr broken_code) None [])
             (enhance_prompt template demo_requirements) = Inl e \<and> is_Exception e
          \<and> os_print (run_env (Inr broken_code) None []) (EnhancementFailed e) = None)
     \<or> (\<exists>content e. llm_invoke (run_env (Inr broken_code) None [])
             (enhance_prompt template demo_requirements) = Inr content
          \<and> py_compile (run_env (Inr broken_code) None []) (sanitize content) = Some e
          \<and> is_Exception e
          \<and> os_print (run_env (Inr broken_code) None [])
               (if is_SyntaxError e then EnhancedCodeSyntaxError e else EnhancementFailed e)
             = None)"
    by (simp add: run_env_writes)
  have p: "os_print offline EnhancingWithLLM = None" "os_print offline UsingBaseTemplate = None"
    "os_print (run_env (Inr broken_code) None []) EnhancingWithLLM = None"
    "os_print (run_env (Inr broken_code) None []) UsingBaseTemplate = None"
    by (simp_all add: offline_def run_env_writes)
  from enhance_with_llm_falls_back [OF p(1) p(2) a] enhance_with_llm_falls_back [OF p(3) p(4) b]
    a0 b0 c
  show ?thesis by simp
qed



section \<open>Smoke test\<close>





lemma read_file_eq:
  "os_open_r env p = Some e \<Longrightarrow> read_file env p w = (Inl e, w)"
  "os_open_r env p = None \<Longrightarrow> files w p = None \<Longrightarrow> read_file env p w = (Inl OSError, w)"
  "os_open_r env p = None \<Longrightarrow> files w p = Some c \<Longrightarrow> read_file env p w = (Inr c, w)"
  by (simp_all add: read_file_def)

lemma run_eq:
  "subprocess_run env c = Inl e \<Longrightarrow> run env c w = (Inl e, w)"
  "subprocess_run env c = Inr r \<Longrightarrow> run env c w = (Inr r, w)"
  by (simp_all add: run_def)

lemma run_checked_eq:
  "subprocess_run env c = Inl e \<Longrightarrow> run_checked env c w = (Inl e, w)"
  "subprocess_run env c = Inr r \<Longrightarrow> returncode r \<noteq> 0 \<Longrightarrow>
     run_checked env c w = (Inl CalledProcessError, w)"
  "subprocess_run env c = Inr r \<Longrightarrow> returncode r = 0 \<Longrightarrow> run_checked env c w = (Inr r, w)"
  by (simp_all add: run_checked_def run_def bind_io_def return_io_def raise_io_def)

lemmas test_simps = run_simps read_file_eq run_eq run_checked_eq

text \<open>
  What \<^verbatim>\<open>test_project\<close> does when the body of its \<^verbatim>\<open>try\<close> raises an exception, and
  when it returns, on a stream that takes every line.
\<close>

lemma test_project_caught:
  assumes prt: "\<And>l. os_print env l = None"
    and raised: "test_try env project_path (w\<lparr>stdout := stdout w @ [TestingGeneratedCode]\<rparr>)
                   = (Inl e, w\<lparr>stdout := stdout w @ TestingGeneratedCode # ls\<rparr>)"
    and exc: "is_Exception e"
  shows "test_project env project_path w =
           (Inr (), w\<lparr>stdout := stdout w @ TestingGeneratedCode # ls
                               @ [if is_SyntaxError e then TestSyntaxError e else TestError e]\<rparr>)"
  using raised exc
  by (simp add: test_project_def run_simps prt print_line_def)

lemma test_project_passed:
  assumes prt: "\<And>l. os_print env l = None"
    and returned: "test_try env project_path (w\<lparr>stdout := stdout w @ [TestingGeneratedCode]\<rparr>)
                   = (Inr (), w\<lparr>stdout := stdout w @ TestingGeneratedCode # ls\<rparr>)"
  shows "test_project env project_path w =
           (Inr (), w\<lparr>stdout := stdout w @ TestingGeneratedCode # ls\<rparr>)"
  using returned
  by (simp add: test_project_def run_simps prt)

lemmas test_defs = test_project_def test_try_def

lemma test_project_read_fault:
  assumes "\<And>l. os_print env l = None"
    and "os_open_r env (project_path @ [str_of ''main.py'']) = Some e" and "is_Exception e"
  shows "test_project env project_path w =
           (Inr (), w\<lparr>stdout := stdout w @
              [TestingGeneratedCode,
               if is_SyntaxError e then TestSyntaxError e else TestError e]\<rparr>)"
  using assms by (simp add: test_defs test_simps)

lemma test_project_missing_file:
  assumes "\<And>l. os_print env l = None"
    and "os_open_r env (project_path @ [str_of ''main.py'']) = None"
    and "files w (project_path @ [str_of ''main.py'']) = None"
  shows "test_project env project_path w =
           (Inr (), w\<lparr>stdout := stdout w @ [TestingGeneratedCode, TestError OSError]\<rparr>)"
  using assms by (simp add: test_defs test_simps)

lemma test_project_compile_fault:
  assumes "\<And>l. os_print env l = None"
    and "os_open_r env (project_path @ [str_of ''main.py'']) = None"
    and "files w (project_path @ [str_of ''main.py'']) = Some code"
    and "py_compile env code = Some e" and "is_Exception e"
  shows "test_project env project_path w =
           (Inr (), w\<lparr>stdout := stdout w @
              [TestingGeneratedCode,
               if is_SyntaxError e then TestSyntaxError e else TestError e]\<rparr>)"
  using assms by (simp add: test_defs test_simps)

lemma test_project_venv_raises:
  assumes "\<And>l. os_print env l = None"
    and "os_open_r env (project_path @ [str_of ''main.py'']) = None"
    and "files w (project_path @ [str_of ''main.py'']) = Some code"
    and "py_compile env code = None"
    and "subprocess_run env (CreateVenv project_path) = Inl e" and "is_Exception e"
  shows "test_project env project_path w =
           (Inr (), w\<lparr>stdout := stdout w @
              [TestingGeneratedCode, PythonSyntaxValid,
               if is_SyntaxError e then TestSyntaxError e else TestError e]\<rparr>)"
  using assms by (simp add: test_defs test_simps)

lemma test_project_venv_fails:
  assumes "\<And>l. os_print env l = None"
    and "os_open_r env (project_path @ [str_of ''main.py'']) = None"
    and "files w (project_path @ [str_of ''main.py'']) = Some code"
    and "py_compile env code = None"
    and "subprocess_run env (CreateVenv project_path) = Inr r" and "returncode r \<noteq> 0"
  shows "test_project env project_path w =
           (Inr (), w\<lparr>stdout := stdout w @
              [TestingGeneratedCode, PythonSyntaxValid, TestError CalledProcessError]\<rparr>)"
  using assms by (simp add: test_defs test_simps)

lemma test_project_pip_raises:
  assumes "\<And>l. os_print env l = None"
    and "os_open_r env (project_path @ [str_of ''main.py'']) = None"
    and "files w (project_path @ [str_of ''main.py'']) = Some code"
    and "py_compile env code = None"
    and "subprocess_run env (CreateVenv project_path) = Inr r" and "returncode r = 0"
    and "subprocess_run env (PipInstall project_path) = Inl e" and "is_Exception e"
  shows "test_project env project_path w =
           (Inr (), w\<lparr>stdout := stdout w @
              [TestingGeneratedCode, PythonSyntaxValid,
               if is_SyntaxError e then TestSyntaxError e else TestError e]\<rparr>)"
  using assms by (simp add: test_defs test_simps)

lemma test_project_pip_fails:
  assumes "\<And>l. os_print env l = None"
    and "os_open_r env (project_path @ [str_of ''main.py'']) = None"
    and "files w (project_path @ [str_of ''main.py'']) = Some code"
    and "py_compile env code = None"
    and "subprocess_run env (CreateVenv project_path) = Inr r" and "returncode r = 0"
    and "subprocess_run env (PipInstall project_path) = Inr r2" and "returncode r2 \<noteq> 0"
  shows "test_project env project_path w =
           (Inr (), w\<lparr>stdout := stdout w @
              [TestingGeneratedCode, PythonSyntaxValid, TestError CalledProcessError]\<rparr>)"
  using assms by (simp add: test_defs test_simps)

lemma test_project_import_raises:
  assumes "\<And>l. os_print env l = None"
    and "os_open_r env (project_path @ [str_of ''main.py'']) = None"
    and "files w (project_path @ [str_of ''main.py'']) = Some code"
    and "py_compile env code = None"
    and "subprocess_run env (CreateVenv project_path) = Inr r" and "returncode r = 0"
    and "subprocess_run env (PipInstall project_path) = Inr r2" and "returncode r2 = 0"
    and "subprocess_run env (ImportMain project_path) = Inl e" and "is_Exception e"
  shows "test_project env project_path w =
           (Inr (), w\<lparr>stdout := stdout w @
              [TestingGeneratedCode, PythonSyntaxValid,
               if is_SyntaxError e then TestSyntaxError e else TestError e]\<rparr>)"
  using assms by (simp add: test_defs test_simps)

lemma test_project_import_done:
  assumes "\<And>l. os_print env l = None"
    and "os_open_r env (project_path @ [str_of ''main.py'']) = None"
    and "files w (project_path @ [str_of ''main.py'']) = Some code"
    and "py_compile env code = None"
    and "subprocess_run env (CreateVenv project_path) = Inr r" and "returncode r = 0"
    and "subprocess_run env (PipInstall project_path) = Inr r2" and "returncode r2 = 0"
    and "subprocess_run env (ImportMain project_path) = Inr r3"
  shows "test_project env project_path w =
           (Inr (), w\<lparr>stdout := stdout w @
              [TestingGeneratedCode, PythonSyntaxValid,
               if returncode r3 = 0 then CodeImportsSuccessfully
               else ImportTestFailed (stderr r3)]\<rparr>)"
  using assms by (cases "returncode r3 = 0") (simp_all add: test_defs test_simps)

lemmas test_project_paths =
  test_project_read_fault test_project_missing_file test_project_compile_fault
  test_project_venv_raises test_project_venv_fails test_project_pip_raises
  test_project_pip_fails test_project_import_raises test_project_import_done

lemma test_project_total:
  assumes prt: "\<And>l. os_print env l = None"
    and rd: "\<And>p e. os_open_r env p = Some e \<Longrightarrow> is_Exception e"
    and cmp: "\<And>s e. py_compile env s = Some e \<Longrightarrow> is_Exception e"
    and sub: "\<And>c e. subprocess_run env c = Inl e \<Longrightarrow> is_Exception e"
  shows "fst (test_project env project_path w) = Inr ()"
proof -
  let ?main = "project_path @ [str_of ''main.py'']"
  show ?thesis
  proof (cases "os_open_r env ?main")
    case (Some e)
    with rd show ?thesis by (simp add: test_project_read_fault [OF prt])
  next
    case None
    note opened = this
    show ?thesis
    proof (cases "files w ?main")
      case None
      with opened show ?thesis by (simp add: test_project_missing_file [OF prt])
    next
      case (Some code)
      note read = this
      show ?thesis
      proof (cases "py_compile env code")
        case (Some e)
        with cmp opened read show ?thesis by (simp add: test_project_compile_fault [OF prt])
      next
        case None
        note compiled = this
        show ?thesis
        proof (cases "subprocess_run env (CreateVenv project_path)")
          case (Inl e)
          with sub opened read compiled show ?thesis
            by (simp add: test_project_venv_raises [OF prt])
        next
          case (Inr r)
          note venv = this
          show ?thesis
          proof (cases "returncode r = 0")
            case False
            with opened read compiled venv show ?thesis
              by (simp add: test_project_venv_fails [OF prt])
          next
            case True
            note venv_ok = this
            show ?thesis
            proof (cases "subprocess_run env (PipInstall project_path)")
              case (Inl e)
              with sub opened read compiled venv venv_ok show ?thesis
                by (simp add: test_project_pip_raises [OF prt])
            next
              case (Inr r2)
              note pip = this
              show ?thesis
              proof (cases "returncode r2 = 0")
                case False
                with opened read compiled venv venv_ok pip show ?thesis
                  by (simp add: test_project_pip_fails [OF prt])
              next
                case True
                note pip_ok = this
                show ?thesis
                proof (cases "subprocess_run env (ImportMain project_path)")
                  case (Inl e)
                  with sub opened read compiled venv venv_ok pip pip_ok show ?thesis
                    by (simp add: test_project_import_raises [OF prt])
                next
                  case (Inr r3)
                  with opened read compiled venv venv_ok pip pip_ok show ?thesis
                    by (simp add: test_project_import_done [OF prt])
                qed
              qed
            qed
          qed
        qed
      qed
    qed
  qed
qed


text \<open>
  C6, as stated, fails. \<^verbatim>\<open>test_project\<close> prints under no handler: its first print
  (line 258) is before the \<^verbatim>\<open>try\<close>, and the prints of its two handlers (lines 291
  and 293) are outside it. On an output stream whose encoding is ASCII the first print
  raises \<^verbatim>\<open>UnicodeEncodeError\<close>; when the reader of the output pipe goes away and the
  creation of the virtual environment then exits with status 1, the handler's print
  raises \<^verbatim>\<open>OSError\<close>. Both exceptions reach the caller.
\<close>

theorem test_project_raises:
  "fst (test_project ascii_stream (project_dir demo) valid_world) = Inl UnicodeEncodeError
   \<and> subprocess_run broken_pipe (CreateVenv (project_dir demo))
       = Inr \<lparr>returncode = 1, stderr = str_of ''Error''\<rparr>
   \<and> fst (test_project broken_pipe (project_dir demo) valid_world) = Inl OSError"
proof -
  have "os_print ascii_stream TestingGeneratedCode = Some UnicodeEncodeError"
    by (simp add: ascii_stream_def)
  then have a: "fst (test_project ascii_stream (project_dir demo) valid_world)
                  = Inl UnicodeEncodeError"
    by (simp add: test_defs test_simps)
  have v: "subprocess_run broken_pipe (CreateVenv (project_dir demo))
             = Inr \<lparr>returncode = 1, stderr = str_of ''Error''\<rparr>"
    by (simp add: broken_pipe_def failing_venv_def)
  have p: "os_print broken_pipe TestingGeneratedCode = None"
    "os_print broken_pipe PythonSyntaxValid = None"
    "os_print broken_pipe (TestError CalledProcessError) = Some OSError"
    by (simp_all add: broken_pipe_def)
  have r: "os_open_r broken_pipe (project_dir demo @ [str_of ''main.py'']) = None"
    "files valid_world (project_dir demo @ [str_of ''main.py'']) = Some (str_of ''x = 1'')"
    "py_compile broken_pipe (str_of ''x = 1'') = None"
    by (simp_all add: broken_pipe_def failing_venv_def offline_def run_env_def valid_world_def
        project_dir_demo run_compile_values)
  have b: "fst (test_project broken_pipe (project_dir demo) valid_world) = Inl OSError"
    by (simp add: test_defs test_simps v p r)
  from a v b show ?thesis by simp
qed

text \<open>
  C6, amended: on an output stream that takes every line, and when the faults of reading
  the file, of compiling it and of the subprocesses are exceptions (instances of
  \<^verbatim>\<open>Exception\<close>), \<^verbatim>\<open>test_project\<close> returns normally for every project directory, and
  what it has printed after its first line reports the first step that failed: the
  exception of reading or compiling \<^verbatim>\<open>main.py\<close> (the syntax error line for a syntax
  error, the test error line otherwise); then, after the line that the syntax is valid,
  the exception or the nonzero exit status (as \<^verbatim>\<open>CalledProcessError\<close>) of the creation
  of the virtual environment, then of the installation of the dependencies, then the
  exception of the import check or, for a nonzero exit status, its captured error output.
\<close>

theorem test_project_reports:
  fixes env :: env and project_path :: path and w :: world
  defines "main_py \<equiv> project_path @ [str_of ''main.py'']"
    and "printed \<equiv> stdout (snd (test_project env project_path w))"
    and "report \<equiv> \<lambda>e. if is_SyntaxError e then TestSyntaxError e else TestError e"
  assumes prt: "\<And>l. os_print env l = None"
    and rd: "\<And>p e. os_open_r env p = Some e \<Longrightarrow> is_Exception e"
    and cmp: "\<And>s e. py_compile env s = Some e \<Longrightarrow> is_Exception e"
    and sub: "\<And>c e. subprocess_run env c = Inl e \<Longrightarrow> is_Exception e"
  shows "fst (test_project env project_path w) = Inr ()
     \<and> (\<forall>e. os_open_r env main_py = Some e
           \<longrightarrow> printed = stdout w @ [TestingGeneratedCode, report e])
     \<and> (os_open_r env main_py = None \<and> files w main_py = None
           \<longrightarrow> printed = stdout w @ [TestingGeneratedCode, TestError OSError])
     \<and> (\<forall>code. os_open_r env main_py = None \<and> files w main_py = Some code \<longrightarrow>
          (\<forall>e. py_compile env code = Some e
              \<longrightarrow> printed = stdout w @ [TestingGeneratedCode, report e])
        \<and> (py_compile env code = None \<longrightarrow>
             (\<forall>e. subprocess_run env (CreateVenv project_path) = Inl e
                 \<longrightarrow> printed = stdout w @ [TestingGeneratedCode, PythonSyntaxValid, report e])
           \<and> (\<forall>r. subprocess_run env (CreateVenv project_path) = Inr r \<longrightarrow>
                (returncode r \<noteq> 0
                   \<longrightarrow> printed = stdout w @ [TestingGeneratedCode, PythonSyntaxValid,
                                              TestError CalledProcessError])
              \<and> (returncode r = 0 \<longrightarrow>
                   (\<forall>e. subprocess_run env (PipInstall project_path) = Inl e
                       \<longrightarrow> printed = stdout w @ [TestingGeneratedCode, PythonSyntaxValid,
                                                  report e])
                 \<and> (\<forall>r2. subprocess_run env (PipInstall project_path) = Inr r2 \<longrightarrow>
                      (returncode r2 \<noteq> 0
                         \<longrightarrow> printed = stdout w @ [TestingGeneratedCode, PythonSyntaxValid,
                                                    TestError CalledProcessError])
                    \<and> (returncode r2 = 0 \<longrightarrow>
                         (\<forall>e. subprocess_run env (ImportMain project_path) = Inl e
                             \<longrightarrow> printed = stdout w @ [TestingGeneratedCode,
                                                        PythonSyntaxValid, report e])
                       \<and> (\<forall>r3. subprocess_run env (ImportMain project_path) = Inr r3
                             \<longrightarrow> printed = stdout w @ [TestingGeneratedCode,
                                   PythonSyntaxValid,
                                   if returncode r3 = 0 then CodeImportsSuccessfully
                                   else ImportTestFailed (stderr r3)])))))))"
proof -
  have total: "fst (test_project env project_path w) = Inr ()"
    by (rule test_project_total [OF prt rd cmp sub])
  show ?thesis
    unfolding main_py_def printed_def report_def
    using rd cmp sub
    by (auto simp: total test_project_paths [OF prt])
qed

text \<open>
  The amended C6 on four runs for \<^verbatim>\<open>output/demo\<close>: the written source is the unfinished
  statement \<^verbatim>\<open>x = (\<close>; the source is valid and the creation of the virtual
  environment, the installation of the dependencies or the import check exits with
  status 1. Each run returns and ends with the line that reports the failure.
\<close>

theorem test_project_reports_witness:
  "fst (test_project offline (project_dir demo) broken_world) = Inr ()
   \<and> stdout (snd (test_project offline (project_dir demo) broken_world))
       = [TestingGeneratedCode, TestSyntaxError SyntaxError]
   \<and> fst (test_project failing_venv (project_dir demo) valid_world) = Inr ()
   \<and> stdout (snd (test_project failing_venv (project_dir demo) valid_world))
       = [TestingGeneratedCode, PythonSyntaxValid, TestError CalledProcessError]
   \<and> fst (test_project failing_pip (project_dir demo) valid_world) = Inr ()
   \<and> stdout (snd (test_project failing_pip (project_dir demo) valid_world))
       = [TestingGeneratedCode, PythonSyntaxValid, TestError CalledProcessError]
   \<and> fst (test_project failing_import (project_dir demo) valid_world) = Inr ()
   \<and> stdout (snd (test_project failing_import (project_dir demo) valid_world))
       = [TestingGeneratedCode, PythonSyntaxValid,
          ImportTestFailed (str_of ''ModuleNotFoundError'')]"
proof -
  let ?main = "project_dir demo @ [str_of ''main.py'']"
  have files: "files broken_world ?main = Some (str_of ''x = ('')"
    "files valid_world ?main = Some (str_of ''x = 1'')"
    "stdout broken_world = []" "stdout valid_world = []"
    by (simp_all add: broken_world_def valid_world_def project_dir_demo)
  have o: "\<And>l. os_print offline l = None"
    "\<And>p e. os_open_r offline p = Some e \<Longrightarrow> is_Exception e"
    "\<And>s e. py_compile offline s = Some e \<Longrightarrow> is_Exception e"
    "\<And>c e. subprocess_run offline c = Inl e \<Longrightarrow> is_Exception e"
    "os_open_r offline ?main = None" "py_compile offline = run_compile"
    by (auto simp: offline_def run_env_def run_compile_def split: if_splits)
  have v: "\<And>l. os_print failing_venv l = None"
    "\<And>p e. os_open_r failing_venv p = Some e \<Longrightarrow> is_Exception e"
    "\<And>s e. py_compile failing_venv s = Some e \<Longrightarrow> is_Exception e"
    "\<And>c e. subprocess_run failing_venv c = Inl e \<Longrightarrow> is_Exception e"
    "os_open_r failing_venv ?main = None" "py_compile failing_venv = run_compile"
    "subprocess_run failing_venv (CreateVenv (project_dir demo))
       = Inr \<lparr>returncode = 1, stderr = str_of ''Error''\<rparr>"
    by (auto simp: failing_venv_def offline_def run_env_def run_compile_def
        split: if_splits cmd.splits)
  have p: "\<And>l. os_print failing_pip l = None"
    "\<And>p e. os_open_r failing_pip p = Some e \<Longrightarrow> is_Exception e"
    "\<And>s e. py_compile failing_pip s = Some e \<Longrightarrow> is_Exception e"
    "\<And>c e. subprocess_run failing_pip c = Inl e \<Longrightarrow> is_Exception e"
    "os_open_r failing_pip ?main = None" "py_compile failing_pip = run_compile"
    "subprocess_run failing_pip (CreateVenv (project_dir demo))
       = Inr \<lparr>returncode = 0, stderr = []\<rparr>"
    "subprocess_run failing_pip (PipInstall (project_dir demo))
       = Inr \<lparr>returncode = 1, stderr = str_of ''ERROR: No matching distribution''\<rparr>"
    by (auto simp: failing_pip_def offline_def run_env_def run_compile_def
        split: if_splits cmd.splits)
  have i: "\<And>l. os_print failing_import l = None"
    "\<And>p e. os_open_r failing_import p = Some e \<Longrightarrow> is_Exception e"
    "\<And>s e. py_compile failing_import s = Some e \<Longrightarrow> is_Exception e"
    "\<And>c e. subprocess_run failing_import c = Inl e \<Longrightarrow> is_Exception e"
    "os_open_r failing_import ?main = None" "py_compile failing_import = run_compile"
    "subprocess_run failing_import (CreateVenv (project_dir demo))
       = Inr \<lparr>returncode = 0, stderr = []\<rparr>"
    "subprocess_run failing_import (PipInstall (project_dir demo))
       = Inr \<lparr>returncode = 0, stderr = []\<rparr>"
    "subprocess_run failing_import (ImportMain (project_dir demo))
       = Inr \<lparr>returncode = 1, stderr = str_of ''ModuleNotFoundError''\<rparr>"
    by (auto simp: failing_import_def offline_def run_env_def run_compile_def
        split: if_splits cmd.splits)
  have a: "fst (test_project offline (project_dir demo) broken_world) = Inr ()
     \<and> stdout (snd (test_project offline (project_dir demo) broken_world))
         = [TestingGeneratedCode, TestSyntaxError SyntaxError]"
    using test_project_reports
      [where env = offline and project_path = "project_dir demo" and w = broken_world,
        OF o(1) o(2) o(3) o(4)]
    by (simp add: files o(5) o(6) run_compile_values)
  have b: "fst (test_project failing_venv (project_dir demo) valid_world) = Inr ()
     \<and> stdout (snd (test_project failing_venv (project_dir demo) valid_world))
         = [TestingGeneratedCode, PythonSyntaxValid, TestError CalledProcessError]"
    using test_project_reports
      [where env = failing_venv and project_path = "project_dir demo" and w = valid_world,
        OF v(1) v(2) v(3) v(4)]
    by (simp add: files v(5) v(6) v(7) run_compile_values)
  have c: "fst (test_project failing_pip (project_dir demo) valid_world) = Inr ()
     \<and> stdout (snd (test_project failing_pip (project_dir demo) valid_world))
         = [TestingGeneratedCode, PythonSyntaxValid, TestError CalledProcessError]"
    using test_project_reports
      [where env = failing_pip and project_path = "project_dir demo" and w = valid_world,
        OF p(1) p(2) p(3) p(4)]
    by (simp add: files p(5) p(6) p(7) p(8) run_compile_values)
  have d: "fst (test_project failing_import (project_dir demo) valid_world) = Inr ()
     \<and> stdout (snd (test_project failing_import (project_dir demo) valid_world))
         = [TestingGeneratedCode, PythonSyntaxValid,
            ImportTestFailed (str_of ''ModuleNotFoundError'')]"
    using test_project_reports
      [where env = failing_import and project_path = "project_dir demo" and w = valid_world,
        OF i(1) i(2) i(3) i(4)]
    by (simp add: files i(5) i(6) i(7) i(8) i(9) run_compile_values)
  from a b c d show ?thesis by simp
qed

section \<open>Materializing the project\<close>


lemma mkdir_fst:
  "os_mkdir env p = None \<Longrightarrow> fst (mkdir env p w) = Inr ()"
  "os_mkdir env p = Some e \<Longrightarrow> fst (mkdir env p w) = Inl e"
  by (simp_all add: mkdir_def)






text \<open>
  C5. \<^verbatim>\<open>create_project\<close> has no handler around its filesystem calls. Once its first two
  lines are printed, an exception raised by the creation of the project directory is
  what \<^verbatim>\<open>create_project\<close> raises to its caller; so is, once the enhancement has
  returned, an exception raised by opening or writing \<^verbatim>\<open>main.py\<close>, and, each earlier
  write having succeeded and its line being printed, one raised by opening or writing
  \<^verbatim>\<open>requirements.txt\<close> or \<^verbatim>\<open>README.md\<close>.
\<close>

theorem create_project_propagates:
  assumes p1: "os_print env (CreatingProject project_name) = None"
    and p2: "os_print env (Requirements requirements) = None"
  shows
  "(os_mkdir env (project_dir project_name) = Some e
      \<longrightarrow> fst (create_project env requirements project_name w) = Inl e)
   \<and> (os_mkdir env (project_dir project_name) = None
      \<and> fst (enhance_with_llm env (create_working_fastapi_app requirements) requirements w) = Inr src
      \<and> write_fault env (project_dir project_name @ [str_of ''main.py'']) src = Some e
      \<longrightarrow> fst (create_project env requirements project_name w) = Inl e)
   \<and> (os_mkdir env (project_dir project_name) = None
      \<and> fst (enhance_with_llm env (create_working_fastapi_app requirements) requirements w) = Inr src
      \<and> write_fault env (project_dir project_name @ [str_of ''main.py'']) src = None
      \<and> os_print env CreatedMainPy = None
      \<and> write_fault env (project_dir project_name @ [str_of ''requirements.txt''])
           requirements_txt = Some e
      \<longrightarrow> fst (create_project env requirements project_name w) = Inl e)
   \<and> (os_mkdir env (project_dir project_name) = None
      \<and> fst (enhance_with_llm env (create_working_fastapi_app requirements) requirements w) = Inr src
      \<and> write_fault env (project_dir project_name @ [str_of ''main.py'']) src = None
      \<and> os_print env CreatedMainPy = None
      \<and> write_fault env (project_dir project_name @ [str_of ''requirements.txt''])
           requirements_txt = None
      \<and> os_print env CreatedRequirementsTxt = None
      \<and> write_fault env (project_dir project_name @ [str_of ''README.md''])
           (readme_content project_name requirements) = Some e
      \<longrightarrow> fst (create_project env requirements project_name w) = Inl e)"
proof -
  have en': "fst (enhance_with_llm env (create_working_fastapi_app requirements) requirements w')
               = Inr src"
    if "fst (enhance_with_llm env (create_working_fastapi_app requirements) requirements w) = Inr src"
    for w'
    using that enhance_with_llm_result [of env _ requirements w' w] by simp
  show ?thesis
    unfolding create_project_def Let_def
    by (auto simp: bind_io_fst bind_io_raises print_line_fst write_file_fst write_file_raises
        mkdir_fst p1 p2 en' return_io_def)
qed

lemma check_mark_enhance:
  "fst (enhance_with_llm ascii_files b r w) = Inr check_mark_code"
proof -
  have "llm_invoke ascii_files (enhance_prompt b r) = Inr check_mark_code"
    and "py_compile ascii_files check_mark_code = None"
    and "\<And>l. os_print ascii_files l = None"
    by (simp_all add: ascii_files_def run_env_def run_compile_values)
  then show ?thesis
    by (simp add: enhance_defs run_simps sanitize_check_mark_code)
qed

text \<open>
  C5 on five runs: no directory can be created; then, in turn, \<^verbatim>\<open>main.py\<close>,
  \<^verbatim>\<open>requirements.txt\<close> and \<^verbatim>\<open>README.md\<close> cannot be opened for writing; last, the source
  to write has a character that the encoding of the file does not have. Each run raises
  the exception of the filesystem call.
\<close>

theorem create_project_propagates_witness:
  "fst (create_project read_only_disk demo_requirements demo fresh_world) = Inl OSError
   \<and> fst (create_project (run_env (Inl ConnectError) None [str_of ''main.py''])
             demo_requirements demo fresh_world) = Inl OSError
   \<and> fst (create_project (run_env (Inl ConnectError) None [str_of ''requirements.txt''])
             demo_requirements demo fresh_world) = Inl OSError
   \<and> fst (create_project (run_env (Inl ConnectError) None [str_of ''README.md''])
             demo_requirements demo fresh_world) = Inl OSError
   \<and> fst (create_project ascii_files demo_requirements demo fresh_world)
       = Inl UnicodeEncodeError"
proof -
  have a: "fst (create_project read_only_disk demo_requirements demo fresh_world) = Inl OSError"
    using create_project_propagates
      [where env = read_only_disk and project_name = demo and e = OSError
         and requirements = demo_requirements and w = fresh_world and src = template]
    by (simp add: read_only_disk_def run_env_def)
  have b: "fst (create_project (run_env (Inl ConnectError) None [str_of ''main.py''])
             demo_requirements demo fresh_world) = Inl OSError"
    using create_project_propagates
      [where env = "run_env (Inl ConnectError) None [str_of ''main.py'']"
         and project_name = demo and e = OSError and requirements = demo_requirements
         and w = fresh_world and src = template]
    by (simp add: offline_enhance) (simp add: run_env_def write_fault_def)
  have c: "fst (create_project (run_env (Inl ConnectError) None [str_of ''requirements.txt''])
             demo_requirements demo fresh_world) = Inl OSError"
    using create_project_propagates
      [where env = "run_env (Inl ConnectError) None [str_of ''requirements.txt'']"
         and project_name = demo and e = OSError and requirements = demo_requirements
         and w = fresh_world and src = template]
    by (simp add: offline_enhance) (simp add: run_env_def write_fault_def file_names_distinct)
  have d: "fst (create_project (run_env (Inl ConnectError) None [str_of ''README.md''])
             demo_requirements demo fresh_world) = Inl OSError"
    using create_project_propagates
      [where env = "run_env (Inl ConnectError) None [str_of ''README.md'']"
         and project_name = demo and e = OSError and requirements = demo_requirements
         and w = fresh_world and src = template]
    by (simp add: offline_enhance) (simp add: run_env_def write_fault_def file_names_distinct)
  have "write_fault ascii_files (project_dir demo @ [str_of ''main.py'']) check_mark_code
          = Some UnicodeEncodeError"
    by (simp add: write_fault_def ascii_files_def run_env_def check_mark_code_def)
  then have e: "fst (create_project ascii_files demo_requirements demo fresh_world)
                  = Inl UnicodeEncodeError"
    using create_project_propagates
      [where env = ascii_files and project_name = demo and e = UnicodeEncodeError
         and requirements = demo_requirements and w = fresh_world and src = check_mark_code]
    by (simp add: check_mark_enhance) (simp add: ascii_files_def run_env_def)
  from a b c d e show ?thesis by simp
qed





section \<open>An empty enhancement is delivered\<close>



section \<open>Exit status\<close>





section \<open>The template\<close>

text \<open>
  \<^verbatim>\<open>create_working_fastapi_app\<close> ignores its argument. Whether the template is valid
  Python is a fact about CPython's parser, which is outside this development: the
  compiler is a parameter of the environment here.
\<close>

lemma create_working_fastapi_app_constant:
  "create_working_fastapi_app requirements = create_working_fastapi_app requirements'"
  by (simp add: create_working_fastapi_app_def)

end
